theory Spec2Isabelle
  imports Main "HOL-Library.Word" "HOL-Library.FSet"
begin

section \<open>Microblock submission processing of the directory service\<close>

text \<open>
  A shallow embedding of \<^verbatim>\<open>src/libDirectoryService/MicroBlockProcessing.cpp\<close>:
  \<^verbatim>\<open>DirectoryService::VerifyMicroblockCoSignature\<close> and
  \<^verbatim>\<open>DirectoryService::ProcessMicroblockSubmission\<close> (the directory node's build, where
  \<^verbatim>\<open>IS_LOOKUP_NODE\<close> is not defined).

  Both functions return \<^verbatim>\<open>bool\<close>. The model returns the place the function returned at,
  named after the log message written there, and \<open>returned\<close> gives the C++ value. An
  exception of a bounds-checked \<^verbatim>\<open>at\<close> is the left summand of the result. The calls
  that decode the message, that aggregate the keys and check the signature, and that
  start the consensus on the final block are recorded, in order, in a list of events.
  Offsets and sizes are naturals: a message of \<open>2 ^ 32\<close> bytes is not considered.
\<close>

subsection \<open>Data\<close>

type_synonym byte = "8 word"
type_synonym uint32_t = "32 word"
type_synonym uint256_t = "256 word"

datatype PubKey = PubKey nat
datatype Signature = Signature nat
datatype Peer = Peer nat nat

text \<open>
  What the two functions read of a \<^verbatim>\<open>MicroBlock\<close>: the miner's key and the timestamp of
  its header, the bitmap and the signature of the co-signature, and the rest of its
  content. The class and its comparison are not among the repository's files: two micro
  blocks are the same element of \<^verbatim>\<open>m_microBlocks\<close> when all of this agrees.
\<close>

record MicroBlock =
  MinerPubKey :: PubKey
  Timestamp :: nat
  HeaderSigBitmap :: "bool list"
  HeaderSig :: Signature
  Body :: "byte list"

text \<open>
  One shard, \<^verbatim>\<open>map<PubKey, Peer>\<close>, is the list of its entries in the order the
  range-based \<^verbatim>\<open>for\<close> visits them.
\<close>

type_synonym Shard = "(PubKey \<times> Peer) list"

text \<open>
  The states of the directory service. The source names \<^verbatim>\<open>MICROBLOCK_SUBMISSION\<close> (the
  spec's AwaitingSubmissions); the other three are the spec's.
\<close>

datatype DirState =
  MICROBLOCK_SUBMISSION | SubmissionsComplete | ConsensusInProgress | RoundFinalized

datatype Action = PROCESS_MICROBLOCKSUBMISSION

text \<open>
  The members of \<^verbatim>\<open>DirectoryService\<close> the two functions use. \<open>expectedEpoch\<close> stands for
  the block count that \<^verbatim>\<open>CheckWhetherDSBlockIsFresh\<close> compares with (the spec's
  \<^verbatim>\<open>EpochContext.expectedEpoch\<close>).
\<close>

record DirectoryService =
  m_state :: DirState
  m_consensusID :: uint32_t
  m_shards :: "Shard list"
  m_publicKeyToShardIdMap :: "PubKey \<rightharpoonup> uint32_t"
  m_microBlocks :: "MicroBlock fset"
  expectedEpoch :: uint256_t

text \<open>
  The collaborators whose code is outside the repository's files, taken as they are
  called: \<^verbatim>\<open>MultiSig::AggregatePubKeys\<close> (\<open>None\<close> is \<^verbatim>\<open>nullptr\<close>),
  \<^verbatim>\<open>Schnorr::Verify\<close>, \<^verbatim>\<open>MicroBlock::Serialize\<close>, the constructor
  \<^verbatim>\<open>MicroBlock(message, offset)\<close> and \<^verbatim>\<open>TxBlock::GetMinSize()\<close>.
\<close>

record Collaborators =
  AggregatePubKeys :: "PubKey list \<Rightarrow> PubKey option"
  SchnorrVerify :: "byte list \<Rightarrow> Signature \<Rightarrow> PubKey \<Rightarrow> bool"
  Serialize :: "MicroBlock \<Rightarrow> byte list"
  MicroBlockCtor :: "byte list \<Rightarrow> nat \<Rightarrow> MicroBlock"
  TxBlockGetMinSize :: nat

datatype event =
  GetNumberCall nat nat
  | MicroBlockCtorCall nat
  | AggregatePubKeysCall "PubKey list"
  | SchnorrVerifyCall "byte list" Signature PubKey
  | RunConsensusOnFinalBlockCall

text \<open>\<^verbatim>\<open>std::out_of_range\<close>, with the index that was out of range.\<close>

datatype exn = ShardsOutOfRange nat | BitmapOutOfRange nat

datatype cosig_result =
  CosigOk | NotEnoughNodes | AggregatedKeyFailed | CosigVerificationFailed

datatype submit_result =
  Accepted
  | NotAtMicroblockSubmission
  | MessageSizeInappropriate
  | DSBlockNotFresh
  | ConsensusIdIncorrect
  | MinerKeyNotFound
  | ShardIdMismatch
  | CosigRejected cosig_result

fun returned :: "submit_result \<Rightarrow> bool" where
  "returned Accepted = True"
| "returned _ = False"

subsection \<open>Helpers of the repository that are not among its files\<close>

text \<open>
  Modelled from the spec: \<^verbatim>\<open>ConsensusCommon::NumForConsensus\<close> is missing; the spec gives
  the threshold as \<open>floor(2n/3) + 1\<close>.
\<close>

definition NumForConsensus :: "nat \<Rightarrow> nat" where
  "NumForConsensus shardSize = 2 * shardSize div 3 + 1"

text \<open>
  Modelled from the spec: \<^verbatim>\<open>CheckState\<close> is missing; the gate passes in the phase that
  awaits submissions, which the source's comment and log message name
  \<^verbatim>\<open>MICROBLOCK_SUBMISSION\<close>.
\<close>

fun CheckState :: "DirectoryService \<Rightarrow> Action \<Rightarrow> bool" where
  "CheckState ds PROCESS_MICROBLOCKSUBMISSION = (m_state ds = MICROBLOCK_SUBMISSION)"

text \<open>
  Modelled from the spec: \<^verbatim>\<open>IsMessageSizeInappropriate\<close> is missing; a message is too
  short when what it holds past the offset is less than the length needed.
\<close>

definition IsMessageSizeInappropriate :: "nat \<Rightarrow> nat \<Rightarrow> nat \<Rightarrow> bool" where
  "IsMessageSizeInappropriate messageSize offset minLengthNeeded =
     (messageSize - offset < minLengthNeeded)"

text \<open>
  Modelled from the spec: \<^verbatim>\<open>Serializable::GetNumber\<close> is missing; the fields of the
  wire layout are unsigned, of fixed width and big-endian.
\<close>

fun big_endian :: "byte list \<Rightarrow> nat \<Rightarrow> nat" where
  "big_endian [] acc = acc"
| "big_endian (b # bs) acc = big_endian bs (acc * 256 + unat b)"

definition GetNumber :: "byte list \<Rightarrow> nat \<Rightarrow> nat \<Rightarrow> 'a::len word" where
  "GetNumber src offset numerictype_len =
     word_of_nat (big_endian (take numerictype_len (drop offset src)) 0)"

text \<open>
  Modelled from the spec: \<^verbatim>\<open>CheckWhetherDSBlockIsFresh\<close> is missing; the number it is
  given is fresh when it is the expected epoch.
\<close>

definition CheckWhetherDSBlockIsFresh :: "DirectoryService \<Rightarrow> uint256_t \<Rightarrow> bool" where
  "CheckWhetherDSBlockIsFresh ds dsblock_num = (dsblock_num = expectedEpoch ds)"

text \<open>
  Modelled from the spec: \<^verbatim>\<open>RunConsensusOnFinalBlock\<close> is missing; the completed batch
  moves the phase from awaiting submissions to submissions complete.
\<close>

definition RunConsensusOnFinalBlock :: "DirectoryService \<Rightarrow> DirectoryService" where
  "RunConsensusOnFinalBlock ds = ds\<lparr>m_state := SubmissionsComplete\<rparr>"

subsection \<open>VerifyMicroblockCoSignature\<close>

text \<open>
  The loop over the shard, lines 52 to 60: \<open>index\<close> and \<open>count\<close> are the two counters,
  \<open>keys\<close> the vector the selected keys are pushed to. \<^verbatim>\<open>collectiveSigBitmap.at(index)\<close>
  throws when the index is not below the bitmap's size. (Both counters are
  \<^verbatim>\<open>unsigned int\<close>; a shard of \<open>2 ^ 32\<close> members does not exist, so they are naturals.)
\<close>

fun select_signers ::
  "bool list \<Rightarrow> Shard \<Rightarrow> nat \<Rightarrow> PubKey list \<Rightarrow> nat \<Rightarrow> exn + (PubKey list \<times> nat)" where
  "select_signers collectiveSigBitmap [] index keys count = Inr (keys, count)"
| "select_signers collectiveSigBitmap (kv # shard) index keys count =
     (if index < length collectiveSigBitmap then
        (if collectiveSigBitmap ! index
         then select_signers collectiveSigBitmap shard (Suc index) (keys @ [fst kv]) (Suc count)
         else select_signers collectiveSigBitmap shard (Suc index) keys count)
      else Inl (BitmapOutOfRange index))"

definition VerifyMicroblockCoSignature ::
  "Collaborators \<Rightarrow> DirectoryService \<Rightarrow> MicroBlock \<Rightarrow> uint32_t
     \<Rightarrow> event list \<times> (exn + cosig_result)" where
  "VerifyMicroblockCoSignature env ds microBlock shardId =
     (let collectiveSigBitmap = HeaderSigBitmap microBlock in
      if \<not> unat shardId < length (m_shards ds) then ([], Inl (ShardsOutOfRange (unat shardId)))
      else
        case select_signers collectiveSigBitmap (m_shards ds ! unat shardId) 0 [] 0 of
          Inl e \<Rightarrow> ([], Inl e)
        | Inr (keys, count) \<Rightarrow>
            if count \<noteq> NumForConsensus (length collectiveSigBitmap)
            then ([], Inr NotEnoughNodes)
            else
              case AggregatePubKeys env keys of
                None \<Rightarrow> ([AggregatePubKeysCall keys], Inr AggregatedKeyFailed)
              | Some aggregatedKey \<Rightarrow>
                  let message = Serialize env microBlock in
                  if \<not> SchnorrVerify env message (HeaderSig microBlock) aggregatedKey
                  then ([AggregatePubKeysCall keys,
                         SchnorrVerifyCall message (HeaderSig microBlock) aggregatedKey],
                        Inr CosigVerificationFailed)
                  else ([AggregatePubKeysCall keys,
                         SchnorrVerifyCall message (HeaderSig microBlock) aggregatedKey],
                        Inr CosigOk))"

subsection \<open>ProcessMicroblockSubmission\<close>

text \<open>
  Lines 165 to 188: the insertion into \<^verbatim>\<open>m_microBlocks\<close>, then the comparison of its
  size with the number of shards, and the call that starts the consensus on the final
  block.
\<close>

definition insert_and_check ::
  "DirectoryService \<Rightarrow> MicroBlock \<Rightarrow> event list \<times> DirectoryService" where
  "insert_and_check ds microBlock =
     (let ds1 = ds\<lparr>m_microBlocks := finsert microBlock (m_microBlocks ds)\<rparr> in
      if fcard (m_microBlocks ds1) = length (m_shards ds1)
      then ([RunConsensusOnFinalBlockCall], RunConsensusOnFinalBlock ds1)
      else ([], ds1))"

definition ProcessMicroblockSubmission ::
  "Collaborators \<Rightarrow> DirectoryService \<Rightarrow> byte list \<Rightarrow> nat \<Rightarrow> Peer
     \<Rightarrow> event list \<times> (exn + submit_result) \<times> DirectoryService" where
  "ProcessMicroblockSubmission env ds message offset from =
     (if \<not> CheckState ds PROCESS_MICROBLOCKSUBMISSION
      then ([], Inr NotAtMicroblockSubmission, ds)
      else if IsMessageSizeInappropriate (length message) offset
                (32 + 4 + 4 + TxBlockGetMinSize env)
      then ([], Inr MessageSizeInappropriate, ds)
      else
        let DSBlockNum = (GetNumber message offset 32 :: uint256_t);
            ev1 = [GetNumberCall offset 32] in
        if \<not> CheckWhetherDSBlockIsFresh ds (DSBlockNum + 1)
        then (ev1, Inr DSBlockNotFresh, ds)
        else
          let consensusID = (GetNumber message (offset + 32) 4 :: uint32_t);
              ev2 = [GetNumberCall offset 32, GetNumberCall (offset + 32) 4] in
          if consensusID \<noteq> m_consensusID ds
          then (ev2, Inr ConsensusIdIncorrect, ds)
          else
            let shardId = (GetNumber message (offset + 36) 4 :: uint32_t);
                microBlock = MicroBlockCtor env message (offset + 40);
                ev3 = [GetNumberCall offset 32, GetNumberCall (offset + 32) 4,
                       GetNumberCall (offset + 36) 4, MicroBlockCtorCall (offset + 40)] in
            case m_publicKeyToShardIdMap ds (MinerPubKey microBlock) of
              None \<Rightarrow> (ev3, Inr MinerKeyNotFound, ds)
            | Some minerShard \<Rightarrow>
                if minerShard \<noteq> shardId
                then (ev3, Inr ShardIdMismatch, ds)
                else
                  (case VerifyMicroblockCoSignature env ds microBlock shardId of
                     (evv, Inl e) \<Rightarrow> (ev3 @ evv, Inl e, ds)
                   | (evv, Inr r) \<Rightarrow>
                       if r \<noteq> CosigOk
                       then (ev3 @ evv, Inr (CosigRejected r), ds)
                       else
                         (case insert_and_check ds microBlock of
                            (evi, ds') \<Rightarrow> (ev3 @ evv @ evi, Inr Accepted, ds'))))"

text \<open>
  A sequence of calls, each on the state the one before left. A call that threw leaves
  the state as it was, and the next call is processed all the same.
\<close>

type_synonym submission = "byte list \<times> nat \<times> Peer"

fun process_all ::
  "Collaborators \<Rightarrow> DirectoryService \<Rightarrow> submission list \<Rightarrow> event list \<times> DirectoryService" where
  "process_all env ds [] = ([], ds)"
| "process_all env ds ((message, offset, from) # rest) =
     (case ProcessMicroblockSubmission env ds message offset from of
        (evs, r, ds') \<Rightarrow>
          (case process_all env ds' rest of (evs', ds'') \<Rightarrow> (evs @ evs', ds'')))"

subsection \<open>Names for what a call decodes and selects\<close>

text \<open>
  The keys of the members whose bit is set, position by position: what the spec calls
  the subset of roster member keys whose bitmap position is true.
\<close>

definition selected_keys :: "bool list \<Rightarrow> Shard \<Rightarrow> PubKey list" where
  "selected_keys bitmap shard = map (fst \<circ> snd) (filter fst (zip bitmap shard))"

text \<open>The local variables of \<^verbatim>\<open>ProcessMicroblockSubmission\<close>, as functions of the message.\<close>

definition msg_DSBlockNum :: "byte list \<Rightarrow> nat \<Rightarrow> uint256_t" where
  "msg_DSBlockNum message offset = GetNumber message offset 32"

definition msg_consensusID :: "byte list \<Rightarrow> nat \<Rightarrow> uint32_t" where
  "msg_consensusID message offset = GetNumber message (offset + 32) 4"

definition msg_shardId :: "byte list \<Rightarrow> nat \<Rightarrow> uint32_t" where
  "msg_shardId message offset = GetNumber message (offset + 36) 4"

definition msg_microBlock :: "Collaborators \<Rightarrow> byte list \<Rightarrow> nat \<Rightarrow> MicroBlock" where
  "msg_microBlock env message offset = MicroBlockCtor env message (offset + 40)"

text \<open>
  The checks of lines 96 to 131 all pass: the state, the size of the message, the
  freshness of the block number and the consensus id. The micro block is then decoded.
\<close>

definition passes_header_checks ::
  "Collaborators \<Rightarrow> DirectoryService \<Rightarrow> byte list \<Rightarrow> nat \<Rightarrow> bool" where
  "passes_header_checks env ds message offset =
     (CheckState ds PROCESS_MICROBLOCKSUBMISSION
      \<and> \<not> IsMessageSizeInappropriate (length message) offset (32 + 4 + 4 + TxBlockGetMinSize env)
      \<and> CheckWhetherDSBlockIsFresh ds (msg_DSBlockNum message offset + 1)
      \<and> msg_consensusID message offset = m_consensusID ds)"

text \<open>
  Every check of \<^verbatim>\<open>ProcessMicroblockSubmission\<close> passes: those of the header, the miner's
  key is registered for the shard id of the message, and the co-signature verifies.
\<close>

definition fully_validated ::
  "Collaborators \<Rightarrow> DirectoryService \<Rightarrow> byte list \<Rightarrow> nat \<Rightarrow> bool" where
  "fully_validated env ds message offset =
     (passes_header_checks env ds message offset
      \<and> m_publicKeyToShardIdMap ds (MinerPubKey (msg_microBlock env message offset)) =
          Some (msg_shardId message offset)
      \<and> snd (VerifyMicroblockCoSignature env ds (msg_microBlock env message offset)
               (msg_shardId message offset)) = Inr CosigOk)"

text \<open>How often a list of events holds the call of \<^verbatim>\<open>RunConsensusOnFinalBlock\<close>.\<close>

definition triggers :: "event list \<Rightarrow> nat" where
  "triggers evs = count_list evs RunConsensusOnFinalBlockCall"

subsection \<open>A small network to run the functions on\<close>

text \<open>
  Three shards of four members each. A key is aggregated by adding the numbers of the
  keys, and a signature is valid under a key when it carries the key's number. The micro
  block's bytes are: the miner's key, the timestamp, the signature, the length of the
  bitmap, the bitmap, and the body.
\<close>

fun key_id :: "PubKey \<Rightarrow> nat" where
  "key_id (PubKey n) = n"

definition demo_ctor :: "byte list \<Rightarrow> nat \<Rightarrow> MicroBlock" where
  "demo_ctor message offset =
     (let bs = drop offset message in
      \<lparr>MinerPubKey = PubKey (unat (bs ! 0)), Timestamp = unat (bs ! 1),
       HeaderSigBitmap = map (\<lambda>b. b \<noteq> 0) (take (unat (bs ! 3)) (drop 4 bs)),
       HeaderSig = Signature (unat (bs ! 2)),
       Body = drop (4 + unat (bs ! 3)) bs\<rparr>)"

definition demo_collaborators :: Collaborators where
  "demo_collaborators =
     \<lparr>AggregatePubKeys =
        (\<lambda>keys. if keys = [] then None else Some (PubKey (sum_list (map key_id keys)))),
      SchnorrVerify = (\<lambda>message sig key. sig = Signature (key_id key)),
      Serialize = Body,
      MicroBlockCtor = demo_ctor,
      TxBlockGetMinSize = 4\<rparr>"

definition demo_shard :: "nat \<Rightarrow> Shard" where
  "demo_shard base = map (\<lambda>i. (PubKey (base + i), Peer i 30303)) [1, 2, 3, 4]"

definition demo_ds :: DirectoryService where
  "demo_ds =
     \<lparr>m_state = MICROBLOCK_SUBMISSION, m_consensusID = 9,
      m_shards = [demo_shard 0, demo_shard 10, demo_shard 20],
      m_publicKeyToShardIdMap =
        (\<lambda>k. if key_id k < 10 then Some 0 else if key_id k < 20 then Some 1
              else if key_id k < 30 then Some 2 else None),
      m_microBlocks = {||}, expectedEpoch = 7\<rparr>"

text \<open>
  A submission for the demo network: block number 6, consensus id 9, then the shard id
  and the micro block.
\<close>

definition demo_message :: "byte \<Rightarrow> byte \<Rightarrow> byte \<Rightarrow> byte \<Rightarrow> byte list \<Rightarrow> byte list" where
  "demo_message shard miner ts sig bits =
     [0, 0, 0, 0, 0, 0, 0, 0, 0, 0, 0, 0, 0, 0, 0, 0,
      0, 0, 0, 0, 0, 0, 0, 0, 0, 0, 0, 0, 0, 0, 0, 6,
      0, 0, 0, 9,
      0, 0, 0, shard,
      miner, ts, sig, of_nat (length bits)] @ bits"

definition demo_block :: "nat \<Rightarrow> nat \<Rightarrow> bool list \<Rightarrow> MicroBlock" where
  "demo_block miner sig bitmap =
     \<lparr>MinerPubKey = PubKey miner, Timestamp = 50, HeaderSigBitmap = bitmap,
      HeaderSig = Signature sig, Body = []\<rparr>"

section \<open>Lemmas\<close>

lemmas demo_defs =
  demo_collaborators_def demo_ds_def demo_message_def demo_ctor_def demo_shard_def demo_block_def

lemmas model_defs =
  ProcessMicroblockSubmission_def VerifyMicroblockCoSignature_def insert_and_check_def
  RunConsensusOnFinalBlock_def IsMessageSizeInappropriate_def GetNumber_def
  CheckWhetherDSBlockIsFresh_def NumForConsensus_def Let_def

lemmas name_defs =
  msg_DSBlockNum_def msg_consensusID_def msg_shardId_def msg_microBlock_def
  passes_header_checks_def fully_validated_def selected_keys_def

lemmas eval_defs = demo_defs model_defs name_defs fcard_finsert_if fcard_fempty

subsection \<open>The loop that selects the signers\<close>

lemma selected_keys_Cons:
  "selected_keys (b # bs) (kv # shard) = (if b then fst kv # selected_keys bs shard else selected_keys bs shard)"
  by (simp add: selected_keys_def)

lemma select_signers_in_range:
  "index + length shard \<le> length bitmap \<Longrightarrow>
   select_signers bitmap shard index keys count =
     Inr (keys @ selected_keys (drop index bitmap) shard,
          count + length (selected_keys (drop index bitmap) shard))"
proof (induction shard arbitrary: index keys count)
  case Nil
  then show ?case by (simp add: selected_keys_def)
next
  case (Cons kv shard)
  then have lt: "index < length bitmap" by simp
  then have d: "drop index bitmap = bitmap ! index # drop (Suc index) bitmap"
    by (simp add: Cons_nth_drop_Suc)
  from Cons.prems have "Suc index + length shard \<le> length bitmap" by simp
  note IH = Cons.IH [OF this]
  show ?case
    by (simp add: lt IH d selected_keys_Cons)
qed

lemma select_signers_out_of_range:
  "length bitmap < index + length shard \<Longrightarrow> index \<le> length bitmap \<Longrightarrow>
   select_signers bitmap shard index keys count = Inl (BitmapOutOfRange (length bitmap))"
proof (induction shard arbitrary: index keys count)
  case Nil
  then show ?case by simp
next
  case (Cons kv shard)
  show ?case
  proof (cases "index < length bitmap")
    case True
    with Cons.prems have "length bitmap < Suc index + length shard" "Suc index \<le> length bitmap"
      by simp_all
    from Cons.IH [OF this] True show ?thesis by simp
  next
    case False
    with Cons.prems have "index = length bitmap" by simp
    then show ?thesis by simp
  qed
qed

lemma count_selected: "length (selected_keys bitmap shard) = count_list (take (length shard) bitmap) True"
proof (induction bitmap arbitrary: shard)
  case Nil then show ?case by (simp add: selected_keys_def)
next
  case (Cons b bs)
  then show ?case by (cases shard) (simp_all add: selected_keys_def)
qed

subsection \<open>The paths through VerifyMicroblockCoSignature\<close>

lemma Verify_bitmap_covers_shard:
  assumes "unat shardId < length (m_shards ds)"
    and "length (m_shards ds ! unat shardId) \<le> length (HeaderSigBitmap microBlock)"
  shows "VerifyMicroblockCoSignature env ds microBlock shardId =
     (let keys = selected_keys (HeaderSigBitmap microBlock) (m_shards ds ! unat shardId) in
      if length keys \<noteq> NumForConsensus (length (HeaderSigBitmap microBlock))
      then ([], Inr NotEnoughNodes)
      else
        case AggregatePubKeys env keys of
          None \<Rightarrow> ([AggregatePubKeysCall keys], Inr AggregatedKeyFailed)
        | Some aggregatedKey \<Rightarrow>
            ([AggregatePubKeysCall keys,
              SchnorrVerifyCall (Serialize env microBlock) (HeaderSig microBlock) aggregatedKey],
             Inr (if SchnorrVerify env (Serialize env microBlock) (HeaderSig microBlock) aggregatedKey
                  then CosigOk else CosigVerificationFailed)))"
proof -
  have "select_signers (HeaderSigBitmap microBlock) (m_shards ds ! unat shardId) 0 [] 0 =
      Inr (selected_keys (HeaderSigBitmap microBlock) (m_shards ds ! unat shardId),
           length (selected_keys (HeaderSigBitmap microBlock) (m_shards ds ! unat shardId)))"
    using select_signers_in_range [of 0 "m_shards ds ! unat shardId" "HeaderSigBitmap microBlock" "[]" 0]
      assms(2) by simp
  then show ?thesis
    using assms(1) by (simp add: VerifyMicroblockCoSignature_def Let_def split: option.splits)
qed

lemma Verify_bitmap_short:
  assumes "unat shardId < length (m_shards ds)"
    and "length (HeaderSigBitmap microBlock) < length (m_shards ds ! unat shardId)"
  shows "VerifyMicroblockCoSignature env ds microBlock shardId =
     ([], Inl (BitmapOutOfRange (length (HeaderSigBitmap microBlock))))"
proof -
  have "select_signers (HeaderSigBitmap microBlock) (m_shards ds ! unat shardId) 0 [] 0 =
      Inl (BitmapOutOfRange (length (HeaderSigBitmap microBlock)))"
    using select_signers_out_of_range [of "HeaderSigBitmap microBlock" 0 "m_shards ds ! unat shardId"]
      assms(2) by simp
  then show ?thesis
    using assms(1) by (simp add: VerifyMicroblockCoSignature_def Let_def)
qed

lemma Verify_reads_shards_only:
  assumes "m_shards ds1 = m_shards ds2"
  shows "VerifyMicroblockCoSignature env ds1 microBlock shardId =
         VerifyMicroblockCoSignature env ds2 microBlock shardId"
  unfolding VerifyMicroblockCoSignature_def assms by (rule refl)

lemma Verify_no_trigger:
  "RunConsensusOnFinalBlockCall \<notin> set (fst (VerifyMicroblockCoSignature env ds microBlock shardId))"
  by (simp add: VerifyMicroblockCoSignature_def Let_def split: sum.splits prod.splits option.splits)

subsection \<open>Counting the calls of RunConsensusOnFinalBlock\<close>

lemma triggers_Nil [simp]: "triggers [] = 0"
  by (simp add: triggers_def)

lemma triggers_Cons [simp]:
  "triggers (e # evs) = (if e = RunConsensusOnFinalBlockCall then 1 else 0) + triggers evs"
  by (simp add: triggers_def)

lemma triggers_append [simp]: "triggers (xs @ ys) = triggers xs + triggers ys"
  by (induction xs) simp_all

lemma triggers_Verify [simp]:
  "triggers (fst (VerifyMicroblockCoSignature env ds microBlock shardId)) = 0"
  using Verify_no_trigger [of env ds microBlock shardId] by (simp add: triggers_def)

subsection \<open>The paths through ProcessMicroblockSubmission\<close>

lemma Process_wrong_state:
  "\<not> CheckState ds PROCESS_MICROBLOCKSUBMISSION \<Longrightarrow>
   ProcessMicroblockSubmission env ds message offset from = ([], Inr NotAtMicroblockSubmission, ds)"
  by (simp add: ProcessMicroblockSubmission_def)

lemma Process_decoded:
  assumes "passes_header_checks env ds message offset"
  shows "ProcessMicroblockSubmission env ds message offset from =
     (case m_publicKeyToShardIdMap ds (MinerPubKey (msg_microBlock env message offset)) of
        None \<Rightarrow>
          ([GetNumberCall offset 32, GetNumberCall (offset + 32) 4, GetNumberCall (offset + 36) 4,
            MicroBlockCtorCall (offset + 40)], Inr MinerKeyNotFound, ds)
      | Some minerShard \<Rightarrow>
          if minerShard \<noteq> msg_shardId message offset
          then ([GetNumberCall offset 32, GetNumberCall (offset + 32) 4,
                 GetNumberCall (offset + 36) 4, MicroBlockCtorCall (offset + 40)],
                Inr ShardIdMismatch, ds)
          else
            (case VerifyMicroblockCoSignature env ds (msg_microBlock env message offset)
                    (msg_shardId message offset) of
               (evv, Inl e) \<Rightarrow>
                 ([GetNumberCall offset 32, GetNumberCall (offset + 32) 4,
                   GetNumberCall (offset + 36) 4, MicroBlockCtorCall (offset + 40)] @ evv,
                  Inl e, ds)
             | (evv, Inr r) \<Rightarrow>
                 if r \<noteq> CosigOk
                 then ([GetNumberCall offset 32, GetNumberCall (offset + 32) 4,
                        GetNumberCall (offset + 36) 4, MicroBlockCtorCall (offset + 40)] @ evv,
                       Inr (CosigRejected r), ds)
                 else
                   (case insert_and_check ds (msg_microBlock env message offset) of
                      (evi, ds') \<Rightarrow>
                        ([GetNumberCall offset 32, GetNumberCall (offset + 32) 4,
                          GetNumberCall (offset + 36) 4, MicroBlockCtorCall (offset + 40)]
                           @ evv @ evi,
                         Inr Accepted, ds'))))"
  using assms
  unfolding ProcessMicroblockSubmission_def passes_header_checks_def msg_DSBlockNum_def
      msg_consensusID_def msg_shardId_def msg_microBlock_def Let_def
  by simp

lemma Process_header_failure:
  "\<not> passes_header_checks env ds message offset \<Longrightarrow>
   snd (ProcessMicroblockSubmission env ds message offset from) \<in>
     {(Inr NotAtMicroblockSubmission, ds), (Inr MessageSizeInappropriate, ds),
      (Inr DSBlockNotFresh, ds), (Inr ConsensusIdIncorrect, ds)}
   \<and> triggers (fst (ProcessMicroblockSubmission env ds message offset from)) = 0"
  by (auto simp add: ProcessMicroblockSubmission_def passes_header_checks_def msg_DSBlockNum_def
      msg_consensusID_def Let_def)

lemma Process_validated:
  assumes "fully_validated env ds message offset"
  shows "snd (ProcessMicroblockSubmission env ds message offset from) =
           (Inr Accepted, snd (insert_and_check ds (msg_microBlock env message offset)))
         \<and> triggers (fst (ProcessMicroblockSubmission env ds message offset from)) =
           triggers (fst (insert_and_check ds (msg_microBlock env message offset)))"
proof -
  obtain evv where V: "VerifyMicroblockCoSignature env ds (msg_microBlock env message offset)
      (msg_shardId message offset) = (evv, Inr CosigOk)"
    using assms
    by (cases "VerifyMicroblockCoSignature env ds (msg_microBlock env message offset)
      (msg_shardId message offset)") (simp add: fully_validated_def)
  have T: "triggers evv = 0"
    using triggers_Verify [of env ds "msg_microBlock env message offset" "msg_shardId message offset"]
    by (simp add: V)
  obtain evi ds' where I: "insert_and_check ds (msg_microBlock env message offset) = (evi, ds')"
    by (cases "insert_and_check ds (msg_microBlock env message offset)")
  have H: "passes_header_checks env ds message offset"
    and M: "m_publicKeyToShardIdMap ds (MinerPubKey (msg_microBlock env message offset)) =
          Some (msg_shardId message offset)"
    using assms by (simp_all add: fully_validated_def)
  show ?thesis
    by (simp add: Process_decoded [OF H] M V I T)
qed

lemma Process_not_validated:
  assumes "\<not> fully_validated env ds message offset"
  shows "fst (snd (ProcessMicroblockSubmission env ds message offset from)) \<noteq> Inr Accepted
     \<and> snd (snd (ProcessMicroblockSubmission env ds message offset from)) = ds
     \<and> triggers (fst (ProcessMicroblockSubmission env ds message offset from)) = 0"
proof (cases "passes_header_checks env ds message offset")
  case False
  from Process_header_failure [OF False, of "from"] show ?thesis
    by auto
next
  case H: True
  obtain evv v where V: "VerifyMicroblockCoSignature env ds (msg_microBlock env message offset)
      (msg_shardId message offset) = (evv, v)"
    by (cases "VerifyMicroblockCoSignature env ds (msg_microBlock env message offset)
      (msg_shardId message offset)")
  have T: "triggers evv = 0"
    using triggers_Verify [of env ds "msg_microBlock env message offset" "msg_shardId message offset"]
    by (simp add: V)
  from assms H have "m_publicKeyToShardIdMap ds (MinerPubKey (msg_microBlock env message offset)) \<noteq>
          Some (msg_shardId message offset) \<or> v \<noteq> Inr CosigOk"
    by (auto simp add: fully_validated_def V)
  then show ?thesis
    by (auto simp add: Process_decoded [OF H] V T split: option.splits sum.splits)
qed

subsection \<open>The insertion and the sequence of calls\<close>

lemma insert_and_check_batch:
  "m_microBlocks (snd (insert_and_check ds microBlock)) = finsert microBlock (m_microBlocks ds)"
  by (simp add: insert_and_check_def RunConsensusOnFinalBlock_def Let_def)

lemma insert_and_check_triggers:
  "triggers (fst (insert_and_check ds microBlock)) =
     (if fcard (finsert microBlock (m_microBlocks ds)) = length (m_shards ds) then 1 else 0)"
  by (simp add: insert_and_check_def Let_def)

lemma insert_and_check_state:
  "snd (insert_and_check ds microBlock) =
     (if fcard (finsert microBlock (m_microBlocks ds)) = length (m_shards ds)
      then ds\<lparr>m_microBlocks := finsert microBlock (m_microBlocks ds), m_state := SubmissionsComplete\<rparr>
      else ds\<lparr>m_microBlocks := finsert microBlock (m_microBlocks ds)\<rparr>)"
  by (simp add: insert_and_check_def RunConsensusOnFinalBlock_def Let_def)

lemma insert_and_check_triggered_state:
  "triggers (fst (insert_and_check ds microBlock)) = 1 \<Longrightarrow>
   m_state (snd (insert_and_check ds microBlock)) = SubmissionsComplete"
  by (simp add: insert_and_check_def RunConsensusOnFinalBlock_def Let_def split: if_splits)

lemma process_all_wrong_state:
  "\<not> CheckState ds PROCESS_MICROBLOCKSUBMISSION \<Longrightarrow> process_all env ds calls = ([], ds)"
proof (induction calls)
  case Nil
  show ?case by simp
next
  case (Cons c calls)
  obtain message offset "from" where c: "c = (message, offset, from)"
    by (cases c)
  show ?case
    using Cons by (simp add: c Process_wrong_state)
qed

lemma Process_triggers:
  "triggers (fst (ProcessMicroblockSubmission env ds message offset from)) =
     (if fst (snd (ProcessMicroblockSubmission env ds message offset from)) = Inr Accepted
         \<and> fcard (m_microBlocks (snd (snd (ProcessMicroblockSubmission env ds message offset from))))
             = length (m_shards ds)
      then 1 else 0)"
proof (cases "fully_validated env ds message offset")
  case True
  from Process_validated [OF True, of "from"] show ?thesis
    by (simp add: insert_and_check_triggers insert_and_check_batch)
next
  case False
  from Process_not_validated [OF False, of "from"] show ?thesis
    by simp
qed

lemma Process_triggered_state:
  assumes "triggers (fst (ProcessMicroblockSubmission env ds message offset from)) = 1"
  shows "\<not> CheckState (snd (snd (ProcessMicroblockSubmission env ds message offset from)))
            PROCESS_MICROBLOCKSUBMISSION"
proof (cases "fully_validated env ds message offset")
  case True
  note V = Process_validated [OF True, of "from"]
  from V assms have "triggers (fst (insert_and_check ds (msg_microBlock env message offset))) = 1"
    by simp
  then have "m_state (snd (insert_and_check ds (msg_microBlock env message offset))) =
      SubmissionsComplete"
    by (rule insert_and_check_triggered_state)
  with V show ?thesis
    by simp
next
  case False
  from Process_not_validated [OF False, of "from"] assms show ?thesis
    by simp
qed

lemma process_all_triggers_le: "triggers (fst (process_all env ds calls)) \<le> 1"
proof (induction calls arbitrary: ds)
  case Nil
  show ?case by simp
next
  case (Cons c calls)
  obtain message offset "from" where c: "c = (message, offset, from)"
    by (cases c)
  obtain evs r ds' where P: "ProcessMicroblockSubmission env ds message offset from = (evs, r, ds')"
    by (cases "ProcessMicroblockSubmission env ds message offset from")
  obtain evs' ds'' where R: "process_all env ds' calls = (evs', ds'')"
    by (cases "process_all env ds' calls")
  have le: "triggers evs \<le> 1"
    using Process_triggers [of env ds message offset "from"] by (simp add: P)
  show ?case
  proof (cases "triggers evs = 1")
    case True
    then have "\<not> CheckState ds' PROCESS_MICROBLOCKSUBMISSION"
      using Process_triggered_state [of env ds message offset "from"] by (simp add: P)
    then have "process_all env ds' calls = ([], ds')"
      by (rule process_all_wrong_state)
    with True show ?thesis by (simp add: c P)
  next
    case False
    with le have "triggers evs = 0" by simp
    moreover have "triggers evs' \<le> 1"
      using Cons.IH [of ds'] by (simp add: R)
    ultimately show ?thesis by (simp add: c P R)
  qed
qed

lemma fully_validated_after_insert:
  assumes "fully_validated env ds message offset"
    and "fcard (finsert microBlock (m_microBlocks ds)) \<noteq> length (m_shards ds)"
  shows "fully_validated env (ds\<lparr>m_microBlocks := finsert microBlock (m_microBlocks ds)\<rparr>)
           message offset"
  using assms
    Verify_reads_shards_only [of "ds\<lparr>m_microBlocks := finsert microBlock (m_microBlocks ds)\<rparr>" ds env
      "msg_microBlock env message offset" "msg_shardId message offset"]
  by (simp add: fully_validated_def passes_header_checks_def CheckWhetherDSBlockIsFresh_def)

section \<open>The claims\<close>

subsection \<open>C1: the completion trigger fires at most once\<close>

text \<open>
  Claim C1. However many submissions are processed one after the other, the call of
  \<^verbatim>\<open>RunConsensusOnFinalBlock\<close> is made at most once. One call of
  \<^verbatim>\<open>ProcessMicroblockSubmission\<close> makes it exactly when the call accepted the submission
  and the batch then holds as many micro blocks as there are shards; after such a call
  every later submission is turned away at the state check, so nothing is called and
  the state (the batch with it) stays as it is. The state check and the effect of
  \<^verbatim>\<open>RunConsensusOnFinalBlock\<close> on the state are the spec's.
\<close>

theorem completion_trigger_at_most_once:
  "triggers (fst (process_all env ds calls)) \<le> 1
   \<and> triggers (fst (ProcessMicroblockSubmission env ds message offset from)) =
       (if fst (snd (ProcessMicroblockSubmission env ds message offset from)) = Inr Accepted
           \<and> fcard (m_microBlocks (snd (snd (ProcessMicroblockSubmission env ds message offset from))))
               = length (m_shards ds)
        then 1 else 0)
   \<and> (triggers (fst (ProcessMicroblockSubmission env ds message offset from)) = 1 \<longrightarrow>
        process_all env (snd (snd (ProcessMicroblockSubmission env ds message offset from))) later =
          ([], snd (snd (ProcessMicroblockSubmission env ds message offset from))))"
  using process_all_triggers_le [of env ds calls]
    Process_triggers [of env ds message offset "from"]
    Process_triggered_state [of env ds message offset "from"]
    process_all_wrong_state [of "snd (snd (ProcessMicroblockSubmission env ds message offset from))" env later]
  by simp

text \<open>
  C1 on the demo network: the three shards submit, then shard 0 submits again. With two
  micro blocks in the batch the third submission makes the call, and two further
  submissions change nothing.
\<close>

theorem completion_trigger_at_most_once_witness:
  "triggers (fst (process_all demo_collaborators demo_ds
       [(demo_message 0 1 50 6 [1, 1, 1, 0], 0, Peer 0 0),
        (demo_message 1 11 50 36 [1, 1, 1, 0], 0, Peer 0 0),
        (demo_message 2 21 50 66 [1, 1, 1, 0], 0, Peer 0 0),
        (demo_message 0 1 50 6 [1, 1, 1, 0], 0, Peer 0 0)])) \<le> 1
   \<and> triggers (fst (ProcessMicroblockSubmission demo_collaborators
         (demo_ds\<lparr>m_microBlocks :=
            {|demo_block 1 6 [True, True, True, False], demo_block 11 36 [True, True, True, False]|}\<rparr>)
         (demo_message 2 21 50 66 [1, 1, 1, 0]) 0 (Peer 0 0))) = 1
   \<and> process_all demo_collaborators
        (snd (snd (ProcessMicroblockSubmission demo_collaborators
         (demo_ds\<lparr>m_microBlocks :=
            {|demo_block 1 6 [True, True, True, False], demo_block 11 36 [True, True, True, False]|}\<rparr>)
         (demo_message 2 21 50 66 [1, 1, 1, 0]) 0 (Peer 0 0))))
        [(demo_message 2 21 50 66 [1, 1, 1, 0], 0, Peer 0 0),
         (demo_message 0 1 51 6 [1, 1, 1, 0], 0, Peer 0 0)] =
       ([], snd (snd (ProcessMicroblockSubmission demo_collaborators
         (demo_ds\<lparr>m_microBlocks :=
            {|demo_block 1 6 [True, True, True, False], demo_block 11 36 [True, True, True, False]|}\<rparr>)
         (demo_message 2 21 50 66 [1, 1, 1, 0]) 0 (Peer 0 0))))"
proof -
  have fired: "triggers (fst (ProcessMicroblockSubmission demo_collaborators
         (demo_ds\<lparr>m_microBlocks :=
            {|demo_block 1 6 [True, True, True, False], demo_block 11 36 [True, True, True, False]|}\<rparr>)
         (demo_message 2 21 50 66 [1, 1, 1, 0]) 0 (Peer 0 0))) = 1"
    by (simp add: eval_defs)
  show ?thesis
    using completion_trigger_at_most_once [of demo_collaborators demo_ds
       "[(demo_message 0 1 50 6 [1, 1, 1, 0], 0, Peer 0 0),
        (demo_message 1 11 50 36 [1, 1, 1, 0], 0, Peer 0 0),
        (demo_message 2 21 50 66 [1, 1, 1, 0], 0, Peer 0 0),
        (demo_message 0 1 50 6 [1, 1, 1, 0], 0, Peer 0 0)]"]
      completion_trigger_at_most_once [of demo_collaborators 
        "demo_ds\<lparr>m_microBlocks :=
            {|demo_block 1 6 [True, True, True, False], demo_block 11 36 [True, True, True, False]|}\<rparr>"
        "[]" "demo_message 2 21 50 66 [1, 1, 1, 0]" 0 "Peer 0 0"
        "[(demo_message 2 21 50 66 [1, 1, 1, 0], 0, Peer 0 0),
         (demo_message 0 1 51 6 [1, 1, 1, 0], 0, Peer 0 0)]"]
      fired
    by blast
qed

subsection \<open>C2: the number of signers and the threshold\<close>

text \<open>
  Claim C2, as the code has it. For a valid shard id and a bitmap as long as the shard
  (its size \<open>n\<close>), the number of selected signers is the number of true bits, and the
  verification returns at the message ``Cosig was not generated by enough nodes''
  exactly when this number differs from \<open>floor(2n/3) + 1\<close>. It then calls neither the key
  aggregation nor the signature check, whatever the signature: so with one true bit less
  than the threshold, and so with more true bits than the threshold. With exactly the
  threshold's number of true bits the selected keys are aggregated, and the verification
  succeeds exactly when the aggregation gives a key under which the signature verifies.
\<close>

theorem cosig_count_must_equal_threshold:
  assumes "unat shardId < length (m_shards ds)"
    and "length (HeaderSigBitmap microBlock) = length (m_shards ds ! unat shardId)"
  shows "length (selected_keys (HeaderSigBitmap microBlock) (m_shards ds ! unat shardId)) =
           count_list (HeaderSigBitmap microBlock) True
       \<and> (snd (VerifyMicroblockCoSignature env ds microBlock shardId) = Inr NotEnoughNodes \<longleftrightarrow>
            count_list (HeaderSigBitmap microBlock) True \<noteq>
              2 * length (m_shards ds ! unat shardId) div 3 + 1)
       \<and> (count_list (HeaderSigBitmap microBlock) True \<noteq>
              NumForConsensus (length (m_shards ds ! unat shardId)) \<longrightarrow>
            VerifyMicroblockCoSignature env ds microBlock shardId = ([], Inr NotEnoughNodes))
       \<and> (Suc (count_list (HeaderSigBitmap microBlock) True) =
              NumForConsensus (length (m_shards ds ! unat shardId)) \<longrightarrow>
            VerifyMicroblockCoSignature env ds microBlock shardId = ([], Inr NotEnoughNodes))
       \<and> (NumForConsensus (length (m_shards ds ! unat shardId)) <
              count_list (HeaderSigBitmap microBlock) True \<longrightarrow>
            VerifyMicroblockCoSignature env ds microBlock shardId = ([], Inr NotEnoughNodes))
       \<and> (count_list (HeaderSigBitmap microBlock) True =
              NumForConsensus (length (m_shards ds ! unat shardId)) \<longrightarrow>
            hd (fst (VerifyMicroblockCoSignature env ds microBlock shardId)) =
              AggregatePubKeysCall
                (selected_keys (HeaderSigBitmap microBlock) (m_shards ds ! unat shardId))
            \<and> (snd (VerifyMicroblockCoSignature env ds microBlock shardId) = Inr CosigOk \<longleftrightarrow>
                 (\<exists>aggregatedKey.
                    AggregatePubKeys env
                      (selected_keys (HeaderSigBitmap microBlock) (m_shards ds ! unat shardId)) =
                      Some aggregatedKey
                    \<and> SchnorrVerify env (Serialize env microBlock) (HeaderSig microBlock)
                         aggregatedKey)))"
proof -
  have covers: "length (m_shards ds ! unat shardId) \<le> length (HeaderSigBitmap microBlock)"
    using assms(2) by simp
  have count: "length (selected_keys (HeaderSigBitmap microBlock) (m_shards ds ! unat shardId)) =
      count_list (HeaderSigBitmap microBlock) True"
    using count_selected [of "HeaderSigBitmap microBlock" "m_shards ds ! unat shardId"] assms(2)
    by simp
  show ?thesis
    using count
    by (auto simp add: Verify_bitmap_covers_shard [OF assms(1) covers] NumForConsensus_def Let_def
        assms(2) split: option.splits)
qed

text \<open>
  C2 on the demo network, a shard of four (threshold 3): three true bits and a valid
  signature are accepted; two true bits are turned away although the signature is valid
  for the two keys; four true bits are turned away.
\<close>

theorem cosig_count_must_equal_threshold_witness:
  "unat (0 :: uint32_t) < length (m_shards demo_ds)
   \<and> length (HeaderSigBitmap (demo_block 1 6 [True, True, True, False])) =
       length (m_shards demo_ds ! unat (0 :: uint32_t))
   \<and> NumForConsensus (length (m_shards demo_ds ! unat (0 :: uint32_t))) = 3
   \<and> count_list (HeaderSigBitmap (demo_block 1 6 [True, True, True, False])) True = 3
   \<and> VerifyMicroblockCoSignature demo_collaborators demo_ds
         (demo_block 1 6 [True, True, True, False]) 0 =
       ([AggregatePubKeysCall [PubKey 1, PubKey 2, PubKey 3],
         SchnorrVerifyCall [] (Signature 6) (PubKey 6)], Inr CosigOk)
   \<and> count_list (HeaderSigBitmap (demo_block 1 3 [True, True, False, False])) True = 2
   \<and> SchnorrVerify demo_collaborators
         (Serialize demo_collaborators (demo_block 1 3 [True, True, False, False]))
         (HeaderSig (demo_block 1 3 [True, True, False, False])) (PubKey 3)
   \<and> VerifyMicroblockCoSignature demo_collaborators demo_ds
         (demo_block 1 3 [True, True, False, False]) 0 = ([], Inr NotEnoughNodes)
   \<and> count_list (HeaderSigBitmap (demo_block 1 10 [True, True, True, True])) True = 4
   \<and> VerifyMicroblockCoSignature demo_collaborators demo_ds
         (demo_block 1 10 [True, True, True, True]) 0 = ([], Inr NotEnoughNodes)"
proof -
  have range: "unat (0 :: uint32_t) < length (m_shards demo_ds)"
    by (simp add: demo_defs)
  have len3: "length (HeaderSigBitmap (demo_block 1 6 [True, True, True, False])) =
       length (m_shards demo_ds ! unat (0 :: uint32_t))"
    and len2: "length (HeaderSigBitmap (demo_block 1 3 [True, True, False, False])) =
       length (m_shards demo_ds ! unat (0 :: uint32_t))"
    and len4: "length (HeaderSigBitmap (demo_block 1 10 [True, True, True, True])) =
       length (m_shards demo_ds ! unat (0 :: uint32_t))"
    by (simp_all add: demo_defs)
  have threshold: "NumForConsensus (length (m_shards demo_ds ! unat (0 :: uint32_t))) = 3"
    by (simp add: demo_defs NumForConsensus_def)
  have c3: "count_list (HeaderSigBitmap (demo_block 1 6 [True, True, True, False])) True = 3"
    and c2: "count_list (HeaderSigBitmap (demo_block 1 3 [True, True, False, False])) True = 2"
    and c4: "count_list (HeaderSigBitmap (demo_block 1 10 [True, True, True, True])) True = 4"
    by (simp_all add: demo_defs)
  have valid2: "SchnorrVerify demo_collaborators
         (Serialize demo_collaborators (demo_block 1 3 [True, True, False, False]))
         (HeaderSig (demo_block 1 3 [True, True, False, False])) (PubKey 3)"
    by (simp add: demo_defs)
  have below: "VerifyMicroblockCoSignature demo_collaborators demo_ds
         (demo_block 1 3 [True, True, False, False]) 0 = ([], Inr NotEnoughNodes)"
    using cosig_count_must_equal_threshold [OF range len2, of demo_collaborators,
        unfolded c2 threshold]
    by simp
  have above: "VerifyMicroblockCoSignature demo_collaborators demo_ds
         (demo_block 1 10 [True, True, True, True]) 0 = ([], Inr NotEnoughNodes)"
    using cosig_count_must_equal_threshold [OF range len4, of demo_collaborators,
        unfolded c4 threshold]
    by simp
  have "snd (VerifyMicroblockCoSignature demo_collaborators demo_ds
         (demo_block 1 6 [True, True, True, False]) 0) = Inr CosigOk"
    using cosig_count_must_equal_threshold [OF range len3, of demo_collaborators,
        unfolded c3 threshold]
    by (simp add: demo_defs selected_keys_def)
  then have exact: "VerifyMicroblockCoSignature demo_collaborators demo_ds
         (demo_block 1 6 [True, True, True, False]) 0 =
       ([AggregatePubKeysCall [PubKey 1, PubKey 2, PubKey 3],
         SchnorrVerifyCall [] (Signature 6) (PubKey 6)], Inr CosigOk)"
    by (simp add: demo_defs model_defs)
  from range len3 threshold c3 exact c2 valid2 below c4 above show ?thesis
    by blast
qed

text \<open>
  Counterexample to C2 as stated: all four members of a shard of four signed, so the
  number of signers is not below \<open>floor(2 * 4 / 3) + 1 = 3\<close>, and the signature is valid
  for the key aggregated from the four; the verification still returns at ``not enough
  nodes'' and aggregates nothing.
\<close>

theorem count_above_threshold_rejected:
  "unat (0 :: uint32_t) < length (m_shards demo_ds)
   \<and> length (m_shards demo_ds ! unat (0 :: uint32_t)) = 4
   \<and> length (HeaderSigBitmap (demo_block 1 10 [True, True, True, True])) = 4
   \<and> \<not> length (selected_keys [True, True, True, True] (m_shards demo_ds ! unat (0 :: uint32_t)))
         < 2 * 4 div 3 + 1
   \<and> AggregatePubKeys demo_collaborators
         (selected_keys [True, True, True, True] (m_shards demo_ds ! unat (0 :: uint32_t))) =
       Some (PubKey 10)
   \<and> SchnorrVerify demo_collaborators
         (Serialize demo_collaborators (demo_block 1 10 [True, True, True, True]))
         (HeaderSig (demo_block 1 10 [True, True, True, True])) (PubKey 10)
   \<and> VerifyMicroblockCoSignature demo_collaborators demo_ds
         (demo_block 1 10 [True, True, True, True]) 0 = ([], Inr NotEnoughNodes)"
  by (simp add: demo_defs model_defs selected_keys_def)

subsection \<open>C3: what the batch holds after an accepted submission\<close>

text \<open>
  Claim C3, as the code has it. \<^verbatim>\<open>m_microBlocks\<close> is a set of micro blocks, not a map from
  shard ids. An accepted submission adds its micro block and removes none: what was in
  the batch stays. The size grows by one when the micro block was not in the batch and
  stays when it was. Processing the same message again, while submissions are still
  awaited, is accepted again (the function returns true, there is no other outcome for
  a duplicate) and leaves the state as it is, so the same micro block twice grows the
  size by exactly one.
\<close>

theorem accepted_submission_is_added:
  assumes "fst (snd (ProcessMicroblockSubmission env ds message offset from)) = Inr Accepted"
  shows "m_microBlocks (snd (snd (ProcessMicroblockSubmission env ds message offset from))) =
           finsert (msg_microBlock env message offset) (m_microBlocks ds)
       \<and> m_microBlocks ds |\<subseteq>|
           m_microBlocks (snd (snd (ProcessMicroblockSubmission env ds message offset from)))
       \<and> fcard (m_microBlocks (snd (snd (ProcessMicroblockSubmission env ds message offset from)))) =
           (if msg_microBlock env message offset |\<in>| m_microBlocks ds
            then fcard (m_microBlocks ds) else Suc (fcard (m_microBlocks ds)))
       \<and> (CheckState (snd (snd (ProcessMicroblockSubmission env ds message offset from)))
             PROCESS_MICROBLOCKSUBMISSION \<longrightarrow>
           snd (ProcessMicroblockSubmission env
                  (snd (snd (ProcessMicroblockSubmission env ds message offset from)))
                  message offset from) =
             (Inr Accepted, snd (snd (ProcessMicroblockSubmission env ds message offset from))))"
proof -
  let ?mb = "msg_microBlock env message offset"
  let ?ds' = "snd (snd (ProcessMicroblockSubmission env ds message offset from))"
  have V: "fully_validated env ds message offset"
    using assms Process_not_validated [of env ds message offset "from"] by blast
  have S: "?ds' = snd (insert_and_check ds ?mb)"
    using Process_validated [OF V, of "from"] by simp
  have B: "m_microBlocks ?ds' = finsert ?mb (m_microBlocks ds)"
    by (simp add: S insert_and_check_batch)
  have C: "fcard (m_microBlocks ?ds') =
           (if ?mb |\<in>| m_microBlocks ds then fcard (m_microBlocks ds) else Suc (fcard (m_microBlocks ds)))"
    by (simp add: B fcard_finsert_if)
  have again: "snd (ProcessMicroblockSubmission env ?ds' message offset from) = (Inr Accepted, ?ds')"
    if open_state: "CheckState ?ds' PROCESS_MICROBLOCKSUBMISSION"
  proof -
    have ne: "fcard (finsert ?mb (m_microBlocks ds)) \<noteq> length (m_shards ds)"
      using open_state by (auto simp add: S insert_and_check_state)
    then have D: "?ds' = ds\<lparr>m_microBlocks := finsert ?mb (m_microBlocks ds)\<rparr>"
      by (simp add: S insert_and_check_state)
    have V': "fully_validated env (ds\<lparr>m_microBlocks := finsert ?mb (m_microBlocks ds)\<rparr>) message offset"
      using V ne by (rule fully_validated_after_insert)
    have "snd (insert_and_check (ds\<lparr>m_microBlocks := finsert ?mb (m_microBlocks ds)\<rparr>) ?mb) =
        ds\<lparr>m_microBlocks := finsert ?mb (m_microBlocks ds)\<rparr>"
      using ne by (simp add: insert_and_check_state)
    then have "snd (ProcessMicroblockSubmission env (ds\<lparr>m_microBlocks := finsert ?mb (m_microBlocks ds)\<rparr>)
        message offset from) = (Inr Accepted, ds\<lparr>m_microBlocks := finsert ?mb (m_microBlocks ds)\<rparr>)"
      using Process_validated [OF V', of "from"] by simp
    then show ?thesis
      unfolding D [symmetric] .
  qed
  from B C again show ?thesis
    by auto
qed

text \<open>
  C3 on the demo network: the submission of shard 0 is accepted, the batch then holds
  one micro block, and the same submission once more is accepted and changes nothing.
\<close>

theorem accepted_submission_is_added_witness:
  "fst (snd (ProcessMicroblockSubmission demo_collaborators demo_ds
               (demo_message 0 1 50 6 [1, 1, 1, 0]) 0 (Peer 0 0))) = Inr Accepted
   \<and> snd (snd (ProcessMicroblockSubmission demo_collaborators demo_ds
               (demo_message 0 1 50 6 [1, 1, 1, 0]) 0 (Peer 0 0))) =
       demo_ds\<lparr>m_microBlocks := {|demo_block 1 6 [True, True, True, False]|}\<rparr>
   \<and> CheckState (demo_ds\<lparr>m_microBlocks := {|demo_block 1 6 [True, True, True, False]|}\<rparr>)
         PROCESS_MICROBLOCKSUBMISSION
   \<and> snd (ProcessMicroblockSubmission demo_collaborators
              (demo_ds\<lparr>m_microBlocks := {|demo_block 1 6 [True, True, True, False]|}\<rparr>)
              (demo_message 0 1 50 6 [1, 1, 1, 0]) 0 (Peer 0 0)) =
       (Inr Accepted, demo_ds\<lparr>m_microBlocks := {|demo_block 1 6 [True, True, True, False]|}\<rparr>)"
proof -
  have first: "snd (ProcessMicroblockSubmission demo_collaborators demo_ds
               (demo_message 0 1 50 6 [1, 1, 1, 0]) 0 (Peer 0 0)) =
       (Inr Accepted, demo_ds\<lparr>m_microBlocks := {|demo_block 1 6 [True, True, True, False]|}\<rparr>)"
    by (simp add: eval_defs)
  have accepted: "fst (snd (ProcessMicroblockSubmission demo_collaborators demo_ds
               (demo_message 0 1 50 6 [1, 1, 1, 0]) 0 (Peer 0 0))) = Inr Accepted"
    by (simp add: first)
  have state: "snd (snd (ProcessMicroblockSubmission demo_collaborators demo_ds
               (demo_message 0 1 50 6 [1, 1, 1, 0]) 0 (Peer 0 0))) =
       demo_ds\<lparr>m_microBlocks := {|demo_block 1 6 [True, True, True, False]|}\<rparr>"
    by (simp add: first)
  have still_open:
    "CheckState (demo_ds\<lparr>m_microBlocks := {|demo_block 1 6 [True, True, True, False]|}\<rparr>)
       PROCESS_MICROBLOCKSUBMISSION"
    by (simp add: demo_ds_def)
  have again: "snd (ProcessMicroblockSubmission demo_collaborators
              (demo_ds\<lparr>m_microBlocks := {|demo_block 1 6 [True, True, True, False]|}\<rparr>)
              (demo_message 0 1 50 6 [1, 1, 1, 0]) 0 (Peer 0 0)) =
       (Inr Accepted, demo_ds\<lparr>m_microBlocks := {|demo_block 1 6 [True, True, True, False]|}\<rparr>)"
    using accepted_submission_is_added [OF accepted] still_open unfolding state by blast
  from accepted state still_open again show ?thesis
    by blast
qed

text \<open>
  Counterexample to C3 as stated: two submissions with shard id 0, from the same miner,
  whose micro blocks differ in the timestamp and in the body. Both are accepted, and the batch then
  holds two micro blocks of shard 0.
\<close>

theorem second_summary_of_a_shard_is_added:
  "msg_shardId (demo_message 0 1 50 6 [1, 1, 1, 0]) 0 = 0
   \<and> msg_shardId (demo_message 0 1 51 6 [1, 1, 1, 0] @ [7]) 0 = 0
   \<and> ProcessMicroblockSubmission demo_collaborators demo_ds
        (demo_message 0 1 50 6 [1, 1, 1, 0]) 0 (Peer 0 0) =
       ([GetNumberCall 0 32, GetNumberCall 32 4, GetNumberCall 36 4, MicroBlockCtorCall 40,
         AggregatePubKeysCall [PubKey 1, PubKey 2, PubKey 3],
         SchnorrVerifyCall [] (Signature 6) (PubKey 6)],
        Inr Accepted,
        demo_ds\<lparr>m_microBlocks := {|demo_block 1 6 [True, True, True, False]|}\<rparr>)
   \<and> fst (snd (ProcessMicroblockSubmission demo_collaborators
          (demo_ds\<lparr>m_microBlocks := {|demo_block 1 6 [True, True, True, False]|}\<rparr>)
          (demo_message 0 1 51 6 [1, 1, 1, 0] @ [7]) 0 (Peer 0 0))) = Inr Accepted
   \<and> fcard (m_microBlocks (snd (snd (ProcessMicroblockSubmission demo_collaborators
          (demo_ds\<lparr>m_microBlocks := {|demo_block 1 6 [True, True, True, False]|}\<rparr>)
          (demo_message 0 1 51 6 [1, 1, 1, 0] @ [7]) 0 (Peer 0 0))))) = 2"
  by (simp add: eval_defs)

subsection \<open>C4: a bitmap that is not as long as the shard\<close>

text \<open>
  Claim C4, as the code has it. The lengths of the bitmap and of the shard are not
  compared. When the bitmap is shorter than the shard, \<^verbatim>\<open>collectiveSigBitmap.at(index)\<close>
  throws \<^verbatim>\<open>std::out_of_range\<close> in the loop that selects the signers, at the index that
  is the bitmap's length, before any key is aggregated and any signature checked.
\<close>

theorem short_bitmap_throws:
  assumes "unat shardId < length (m_shards ds)"
    and "length (HeaderSigBitmap microBlock) < length (m_shards ds ! unat shardId)"
  shows "VerifyMicroblockCoSignature env ds microBlock shardId =
           ([], Inl (BitmapOutOfRange (length (HeaderSigBitmap microBlock))))"
  using assms by (rule Verify_bitmap_short)

text \<open>
  C4 on the demo network: a bitmap of two bits for a shard of four.
\<close>

theorem short_bitmap_throws_witness:
  "unat (0 :: uint32_t) < length (m_shards demo_ds)
   \<and> length (HeaderSigBitmap (demo_block 1 3 [True, True])) <
       length (m_shards demo_ds ! unat (0 :: uint32_t))
   \<and> VerifyMicroblockCoSignature demo_collaborators demo_ds (demo_block 1 3 [True, True]) 0 =
       ([], Inl (BitmapOutOfRange 2))"
  using short_bitmap_throws [of 0 demo_ds "demo_block 1 3 [True, True]" demo_collaborators]
  by (simp add: demo_defs)

text \<open>
  Counterexample to C4 as stated: a bitmap of five bits for a shard of four. The
  lengths differ, the keys are aggregated, the signature is checked and the
  verification succeeds.
\<close>

theorem long_bitmap_accepted:
  "length (HeaderSigBitmap (demo_block 1 10 [True, True, True, True, False])) \<noteq>
     length (m_shards demo_ds ! unat (0 :: uint32_t))
   \<and> VerifyMicroblockCoSignature demo_collaborators demo_ds
         (demo_block 1 10 [True, True, True, True, False]) 0 =
       ([AggregatePubKeysCall [PubKey 1, PubKey 2, PubKey 3, PubKey 4],
         SchnorrVerifyCall [] (Signature 10) (PubKey 10)], Inr CosigOk)"
  by (simp add: demo_defs model_defs)

subsection \<open>C5: a failing call leaves the batch as it was\<close>

text \<open>
  Claim C5. Outside the state that awaits submissions the call returns at the state
  check and leaves the state as it was. Every call that does not return true (it
  returned false, or an exception left it) leaves the whole state, the batch with it,
  as it was. A call that changed the state had every check passed: the header checks,
  the miner's key registered for the shard id, and the co-signature verified.
\<close>

theorem failure_leaves_batch:
  "(\<not> CheckState ds PROCESS_MICROBLOCKSUBMISSION \<longrightarrow>
      ProcessMicroblockSubmission env ds message offset from =
        ([], Inr NotAtMicroblockSubmission, ds))
   \<and> (fst (snd (ProcessMicroblockSubmission env ds message offset from)) \<noteq> Inr Accepted \<longrightarrow>
      snd (snd (ProcessMicroblockSubmission env ds message offset from)) = ds)
   \<and> (snd (snd (ProcessMicroblockSubmission env ds message offset from)) \<noteq> ds \<longrightarrow>
      fully_validated env ds message offset)"
  using Process_wrong_state [of ds env message offset "from"]
    Process_validated [of env ds message offset "from"]
    Process_not_validated [of env ds message offset "from"]
  by (cases "fully_validated env ds message offset") simp_all

text \<open>
  C5 on the demo network: a valid submission while the consensus is in progress; a
  submission with a wrong signature; and a valid submission, which does change the
  state.
\<close>

theorem failure_leaves_batch_witness:
  "\<not> CheckState (demo_ds\<lparr>m_state := ConsensusInProgress\<rparr>) PROCESS_MICROBLOCKSUBMISSION
   \<and> ProcessMicroblockSubmission demo_collaborators (demo_ds\<lparr>m_state := ConsensusInProgress\<rparr>)
         (demo_message 0 1 50 6 [1, 1, 1, 0]) 0 (Peer 0 0) =
       ([], Inr NotAtMicroblockSubmission, demo_ds\<lparr>m_state := ConsensusInProgress\<rparr>)
   \<and> fst (snd (ProcessMicroblockSubmission demo_collaborators demo_ds
                (demo_message 0 1 50 7 [1, 1, 1, 0]) 0 (Peer 0 0))) \<noteq> Inr Accepted
   \<and> snd (snd (ProcessMicroblockSubmission demo_collaborators demo_ds
                (demo_message 0 1 50 7 [1, 1, 1, 0]) 0 (Peer 0 0))) = demo_ds
   \<and> snd (snd (ProcessMicroblockSubmission demo_collaborators demo_ds
                (demo_message 0 1 50 6 [1, 1, 1, 0]) 0 (Peer 0 0))) \<noteq> demo_ds
   \<and> fully_validated demo_collaborators demo_ds (demo_message 0 1 50 6 [1, 1, 1, 0]) 0"
proof -
  have closed: "\<not> CheckState (demo_ds\<lparr>m_state := ConsensusInProgress\<rparr>) PROCESS_MICROBLOCKSUBMISSION"
    by simp
  have rejected: "fst (snd (ProcessMicroblockSubmission demo_collaborators demo_ds
                (demo_message 0 1 50 7 [1, 1, 1, 0]) 0 (Peer 0 0))) \<noteq> Inr Accepted"
    by (simp add: eval_defs)
  have "m_microBlocks (snd (snd (ProcessMicroblockSubmission demo_collaborators demo_ds
                (demo_message 0 1 50 6 [1, 1, 1, 0]) 0 (Peer 0 0)))) \<noteq> m_microBlocks demo_ds"
    by (simp add: eval_defs)
  then have changed: "snd (snd (ProcessMicroblockSubmission demo_collaborators demo_ds
                (demo_message 0 1 50 6 [1, 1, 1, 0]) 0 (Peer 0 0))) \<noteq> demo_ds"
    by auto
  from closed rejected changed
    failure_leaves_batch [of "demo_ds\<lparr>m_state := ConsensusInProgress\<rparr>" demo_collaborators
      "demo_message 0 1 50 6 [1, 1, 1, 0]" 0 "Peer 0 0"]
    failure_leaves_batch [of demo_ds demo_collaborators "demo_message 0 1 50 7 [1, 1, 1, 0]" 0 "Peer 0 0"]
    failure_leaves_batch [of demo_ds demo_collaborators "demo_message 0 1 50 6 [1, 1, 1, 0]" 0 "Peer 0 0"]
  show ?thesis
    by blast
qed

subsection \<open>C6: the miner's key and the shard id\<close>

text \<open>
  Claim C6. Once the header checks have passed and the micro block is decoded: when the
  miner's key is not in \<^verbatim>\<open>m_publicKeyToShardIdMap\<close> the call returns false at ``Cannot
  find the miner key''; when the key is registered for another shard id than the one of
  the message, it returns false at ``Microblock shard ID mismatch''. In both cases the
  only calls made are the three number decodings and the micro block's constructor
  (no key aggregation, no signature check), and the state is as it was.
\<close>

theorem identity_checks_precede_verification:
  assumes "passes_header_checks env ds message offset"
  shows "(m_publicKeyToShardIdMap ds (MinerPubKey (msg_microBlock env message offset)) = None \<longrightarrow>
           ProcessMicroblockSubmission env ds message offset from =
             ([GetNumberCall offset 32, GetNumberCall (offset + 32) 4,
               GetNumberCall (offset + 36) 4, MicroBlockCtorCall (offset + 40)],
              Inr MinerKeyNotFound, ds))
       \<and> (\<forall>minerShard.
             m_publicKeyToShardIdMap ds (MinerPubKey (msg_microBlock env message offset)) =
               Some minerShard \<and> minerShard \<noteq> msg_shardId message offset \<longrightarrow>
             ProcessMicroblockSubmission env ds message offset from =
               ([GetNumberCall offset 32, GetNumberCall (offset + 32) 4,
                 GetNumberCall (offset + 36) 4, MicroBlockCtorCall (offset + 40)],
                Inr ShardIdMismatch, ds))"
  by (simp add: Process_decoded [OF assms])

text \<open>
  C6 on the demo network: a miner's key that no shard has (77), and the key of a member
  of shard 1 in a submission for shard 0.
\<close>

theorem identity_checks_precede_verification_witness:
  "passes_header_checks demo_collaborators demo_ds (demo_message 0 77 50 6 [1, 1, 1, 0]) 0
   \<and> m_publicKeyToShardIdMap demo_ds
        (MinerPubKey (msg_microBlock demo_collaborators (demo_message 0 77 50 6 [1, 1, 1, 0]) 0)) = None
   \<and> ProcessMicroblockSubmission demo_collaborators demo_ds
        (demo_message 0 77 50 6 [1, 1, 1, 0]) 0 (Peer 0 0) =
       ([GetNumberCall 0 32, GetNumberCall 32 4, GetNumberCall 36 4, MicroBlockCtorCall 40],
        Inr MinerKeyNotFound, demo_ds)
   \<and> passes_header_checks demo_collaborators demo_ds (demo_message 0 11 50 6 [1, 1, 1, 0]) 0
   \<and> m_publicKeyToShardIdMap demo_ds
        (MinerPubKey (msg_microBlock demo_collaborators (demo_message 0 11 50 6 [1, 1, 1, 0]) 0)) = Some 1
   \<and> msg_shardId (demo_message 0 11 50 6 [1, 1, 1, 0]) 0 = 0
   \<and> ProcessMicroblockSubmission demo_collaborators demo_ds
        (demo_message 0 11 50 6 [1, 1, 1, 0]) 0 (Peer 0 0) =
       ([GetNumberCall 0 32, GetNumberCall 32 4, GetNumberCall 36 4, MicroBlockCtorCall 40],
        Inr ShardIdMismatch, demo_ds)"
proof -
  have h1: "passes_header_checks demo_collaborators demo_ds (demo_message 0 77 50 6 [1, 1, 1, 0]) 0"
    by (simp add: eval_defs)
  have k1: "m_publicKeyToShardIdMap demo_ds
        (MinerPubKey (msg_microBlock demo_collaborators (demo_message 0 77 50 6 [1, 1, 1, 0]) 0)) = None"
    by (simp add: eval_defs)
  have h2: "passes_header_checks demo_collaborators demo_ds (demo_message 0 11 50 6 [1, 1, 1, 0]) 0"
    by (simp add: eval_defs)
  have k2: "m_publicKeyToShardIdMap demo_ds
        (MinerPubKey (msg_microBlock demo_collaborators (demo_message 0 11 50 6 [1, 1, 1, 0]) 0)) = Some 1"
    by (simp add: eval_defs)
  have s2: "msg_shardId (demo_message 0 11 50 6 [1, 1, 1, 0]) 0 = 0"
    by (simp add: eval_defs)
  from identity_checks_precede_verification [OF h1, of "Peer 0 0"] k1
    identity_checks_precede_verification [OF h2, of "Peer 0 0"] k2 s2 h1 h2
  show ?thesis
    by (simp del: One_nat_def)
qed

subsection \<open>C7: a message that is too short\<close>

text \<open>
  Claim C7, as the code has it. A message that holds, past the offset, less than
  \<open>32 + 4 + 4\<close> bytes plus the minimum size of a block is turned away before any field is
  decoded, and the state stays as it was: at the size check when the state check passed,
  and at the state check, which comes first, otherwise.
\<close>

theorem short_message_rejected:
  assumes "length message - offset < 32 + 4 + 4 + TxBlockGetMinSize env"
  shows "ProcessMicroblockSubmission env ds message offset from =
           ([], Inr (if CheckState ds PROCESS_MICROBLOCKSUBMISSION
                     then MessageSizeInappropriate else NotAtMicroblockSubmission), ds)"
  using assms
  by (simp add: ProcessMicroblockSubmission_def IsMessageSizeInappropriate_def)

text \<open>
  C7 on the demo network: a message of three bytes, while submissions are awaited.
\<close>

theorem short_message_rejected_witness:
  "length [1, 2, 3 :: byte] - 0 < 32 + 4 + 4 + TxBlockGetMinSize demo_collaborators
   \<and> CheckState demo_ds PROCESS_MICROBLOCKSUBMISSION
   \<and> ProcessMicroblockSubmission demo_collaborators demo_ds [1, 2, 3] 0 (Peer 0 0) =
       ([], Inr MessageSizeInappropriate, demo_ds)"
proof -
  have short: "length [1, 2, 3 :: byte] - 0 < 32 + 4 + 4 + TxBlockGetMinSize demo_collaborators"
    by simp
  have c: "CheckState demo_ds PROCESS_MICROBLOCKSUBMISSION"
    by (simp add: demo_ds_def)
  from short_message_rejected [OF short, of demo_ds "Peer 0 0"] short c
  show ?thesis
    by simp
qed

text \<open>
  Counterexample to C7 as stated: the same message of three bytes while the consensus is
  in progress. The call returns at the state check, not at the size check.
\<close>

theorem short_message_in_wrong_state:
  "length [1, 2, 3 :: byte] - 0 < 32 + 4 + 4 + TxBlockGetMinSize demo_collaborators
   \<and> ProcessMicroblockSubmission demo_collaborators (demo_ds\<lparr>m_state := ConsensusInProgress\<rparr>)
        [1, 2, 3] 0 (Peer 0 0) =
       ([], Inr NotAtMicroblockSubmission, demo_ds\<lparr>m_state := ConsensusInProgress\<rparr>)
   \<and> fst (snd (ProcessMicroblockSubmission demo_collaborators
                (demo_ds\<lparr>m_state := ConsensusInProgress\<rparr>) [1, 2, 3] 0 (Peer 0 0))) \<noteq>
       Inr MessageSizeInappropriate"
  by (simp add: ProcessMicroblockSubmission_def)

subsection \<open>C8: the freshness of the block number\<close>

text \<open>
  Claim C8. For a message that passed the state check and the size check, the number
  checked for freshness is the decoded 32-byte block number plus one (in 256-bit
  arithmetic). When it is not the expected epoch, the call returns false at the freshness
  check, having decoded the block number only (neither the consensus id nor the shard
  id), and the state is as it was. When it is the expected epoch, the call does not
  return there and goes on to decode the consensus id.
\<close>

theorem stale_block_number_rejected:
  assumes "CheckState ds PROCESS_MICROBLOCKSUBMISSION"
    and "\<not> IsMessageSizeInappropriate (length message) offset (32 + 4 + 4 + TxBlockGetMinSize env)"
  shows "(msg_DSBlockNum message offset + 1 \<noteq> expectedEpoch ds \<longrightarrow>
            ProcessMicroblockSubmission env ds message offset from =
              ([GetNumberCall offset 32], Inr DSBlockNotFresh, ds))
       \<and> (msg_DSBlockNum message offset + 1 = expectedEpoch ds \<longrightarrow>
            fst (snd (ProcessMicroblockSubmission env ds message offset from)) \<noteq> Inr DSBlockNotFresh
            \<and> GetNumberCall (offset + 32) 4 \<in> set (fst (ProcessMicroblockSubmission env ds message offset from)))"
  using assms
  by (auto simp add: ProcessMicroblockSubmission_def msg_DSBlockNum_def CheckWhetherDSBlockIsFresh_def
      Let_def split: option.splits prod.splits sum.splits)

text \<open>
  C8 on the demo network: block number 6 in the message, with 7 and then with 6 as the
  expected epoch.
\<close>

theorem stale_block_number_rejected_witness:
  "CheckState demo_ds PROCESS_MICROBLOCKSUBMISSION
   \<and> \<not> IsMessageSizeInappropriate (length (demo_message 0 1 50 6 [1, 1, 1, 0])) 0
         (32 + 4 + 4 + TxBlockGetMinSize demo_collaborators)
   \<and> msg_DSBlockNum (demo_message 0 1 50 6 [1, 1, 1, 0]) 0 + 1 = expectedEpoch demo_ds
   \<and> fst (snd (ProcessMicroblockSubmission demo_collaborators demo_ds
                (demo_message 0 1 50 6 [1, 1, 1, 0]) 0 (Peer 0 0))) \<noteq> Inr DSBlockNotFresh
   \<and> CheckState (demo_ds\<lparr>expectedEpoch := 6\<rparr>) PROCESS_MICROBLOCKSUBMISSION
   \<and> msg_DSBlockNum (demo_message 0 1 50 6 [1, 1, 1, 0]) 0 + 1 \<noteq> expectedEpoch (demo_ds\<lparr>expectedEpoch := 6\<rparr>)
   \<and> ProcessMicroblockSubmission demo_collaborators (demo_ds\<lparr>expectedEpoch := 6\<rparr>)
        (demo_message 0 1 50 6 [1, 1, 1, 0]) 0 (Peer 0 0) =
       ([GetNumberCall 0 32], Inr DSBlockNotFresh, demo_ds\<lparr>expectedEpoch := 6\<rparr>)"
proof -
  have c1: "CheckState demo_ds PROCESS_MICROBLOCKSUBMISSION"
    and c2: "CheckState (demo_ds\<lparr>expectedEpoch := 6\<rparr>) PROCESS_MICROBLOCKSUBMISSION"
    by (simp_all add: demo_ds_def)
  have sz: "\<not> IsMessageSizeInappropriate (length (demo_message 0 1 50 6 [1, 1, 1, 0])) 0
         (32 + 4 + 4 + TxBlockGetMinSize demo_collaborators)"
    by (simp add: eval_defs)
  have n1: "msg_DSBlockNum (demo_message 0 1 50 6 [1, 1, 1, 0]) 0 + 1 = expectedEpoch demo_ds"
    by (simp add: eval_defs)
  have n2: "msg_DSBlockNum (demo_message 0 1 50 6 [1, 1, 1, 0]) 0 + 1 \<noteq>
      expectedEpoch (demo_ds\<lparr>expectedEpoch := 6\<rparr>)"
    by (simp add: eval_defs)
  from stale_block_number_rejected [OF c1 sz, of "Peer 0 0"] n1
    stale_block_number_rejected [OF c2 sz, of "Peer 0 0"] n2 c1 c2 sz
  show ?thesis
    by blast
qed

subsection \<open>C9: the verification depends on its inputs only\<close>

text \<open>
  Claim C9. Two runs of \<^verbatim>\<open>VerifyMicroblockCoSignature\<close>, in any two states of the
  directory service, on shards with the same entries, micro blocks with the same bitmap,
  the same serialization and the same signature, make the same calls and give the same
  result. The function returns no state: it writes no member of the directory
  service.
\<close>

theorem cosig_depends_on_inputs_only:
  assumes "unat shardId1 < length (m_shards ds1)" and "unat shardId2 < length (m_shards ds2)"
    and "m_shards ds1 ! unat shardId1 = m_shards ds2 ! unat shardId2"
    and "HeaderSigBitmap microBlock1 = HeaderSigBitmap microBlock2"
    and "Serialize env microBlock1 = Serialize env microBlock2"
    and "HeaderSig microBlock1 = HeaderSig microBlock2"
  shows "VerifyMicroblockCoSignature env ds1 microBlock1 shardId1 =
         VerifyMicroblockCoSignature env ds2 microBlock2 shardId2"
  unfolding VerifyMicroblockCoSignature_def assms(3) assms(4) assms(5) assms(6)
  using assms(1) assms(2) by simp

text \<open>
  C9 on the demo network: two states that differ in the phase and the consensus id, two
  micro blocks that differ in the miner's key.
\<close>

theorem cosig_depends_on_inputs_only_witness:
  "unat (0 :: uint32_t) < length (m_shards demo_ds)
   \<and> unat (0 :: uint32_t) < length (m_shards (demo_ds\<lparr>m_state := RoundFinalized, m_consensusID := 3\<rparr>))
   \<and> m_shards demo_ds ! unat (0 :: uint32_t) =
       m_shards (demo_ds\<lparr>m_state := RoundFinalized, m_consensusID := 3\<rparr>) ! unat (0 :: uint32_t)
   \<and> HeaderSigBitmap (demo_block 1 6 [True, True, True, False]) =
       HeaderSigBitmap (demo_block 2 6 [True, True, True, False])
   \<and> Serialize demo_collaborators (demo_block 1 6 [True, True, True, False]) =
       Serialize demo_collaborators (demo_block 2 6 [True, True, True, False])
   \<and> HeaderSig (demo_block 1 6 [True, True, True, False]) =
       HeaderSig (demo_block 2 6 [True, True, True, False])
   \<and> VerifyMicroblockCoSignature demo_collaborators demo_ds
         (demo_block 1 6 [True, True, True, False]) 0 =
       VerifyMicroblockCoSignature demo_collaborators
         (demo_ds\<lparr>m_state := RoundFinalized, m_consensusID := 3\<rparr>)
         (demo_block 2 6 [True, True, True, False]) 0"
  using cosig_depends_on_inputs_only [of 0 demo_ds 0
      "demo_ds\<lparr>m_state := RoundFinalized, m_consensusID := 3\<rparr>"
      "demo_block 1 6 [True, True, True, False]" "demo_block 2 6 [True, True, True, False]"
      demo_collaborators]
  by (simp add: demo_defs)

subsection \<open>C10: the bitmap lookups of the loop\<close>

text \<open>
  Claim C10. The loop looks the bitmap up at the position of every member of the shard.
  When the bitmap is at least as long as the shard, every lookup is in range and the
  loop ends with the selected keys and their number. When the bitmap is shorter, the
  lookup at the position that is the bitmap's length is reached and throws: the loop
  ends with the exception, not with a result.
\<close>

theorem bitmap_lookup_bounds:
  "(length shard \<le> length bitmap \<longrightarrow>
      select_signers bitmap shard 0 [] 0 =
        Inr (selected_keys bitmap shard, length (selected_keys bitmap shard)))
   \<and> (length bitmap < length shard \<longrightarrow>
      select_signers bitmap shard 0 [] 0 = Inl (BitmapOutOfRange (length bitmap)))"
  using select_signers_in_range [of 0 shard bitmap "[]" 0]
    select_signers_out_of_range [of bitmap 0 shard "[]" 0]
  by simp

text \<open>
  C10 on the demo network: a shard of four with a bitmap of four bits, and with one of
  two bits.
\<close>

theorem bitmap_lookup_bounds_witness:
  "length (demo_shard 0) \<le> length [True, True, True, False]
   \<and> select_signers [True, True, True, False] (demo_shard 0) 0 [] 0 =
       Inr ([PubKey 1, PubKey 2, PubKey 3], 3)
   \<and> length [True, True] < length (demo_shard 0)
   \<and> select_signers [True, True] (demo_shard 0) 0 [] 0 = Inl (BitmapOutOfRange 2)"
  using bitmap_lookup_bounds [of "demo_shard 0" "[True, True, True, False]"]
    bitmap_lookup_bounds [of "demo_shard 0" "[True, True]"]
  by (simp add: demo_defs selected_keys_def)

end
